theory Spec2Isabelle
  imports Complex_Main
begin

section \<open>Data model of \<open>stock_sentiment.py\<close>\<close>

text \<open>
  The embedding follows \<open>src/stock_sentiment.py\<close>. What the code calls and the repository
  does not contain (the Reddit client \<open>self.reddit\<close>, the VADER analyzer \<open>self.sia\<close>, the
  \<open>yfinance\<close> module, \<open>datetime.fromtimestamp\<close>, \<open>Series.mean\<close> and \<open>str.upper\<close>)
  appears as an oracle whose answers are arbitrary, so every theorem below holds for
  whatever these return or raise.

  Exceptions are values. \<open>KeyError k\<close> is raised by a column lookup; \<open>External c m\<close> is
  an instance of \<open>Exception\<close> of class \<open>c\<close> raised by a collaborator, with
  \<open>str(e) = m\<close>; \<open>NonException c m\<close> is an exception that is not an instance of
  \<open>Exception\<close> (\<open>KeyboardInterrupt\<close>, \<open>SystemExit\<close>, \<open>GeneratorExit\<close>).
\<close>

datatype pyexc = KeyError string | External string string | NonException string string

text \<open>\<open>isinstance(e, Exception)\<close>: what the clause \<open>except Exception\<close> catches.\<close>

fun is_Exception :: "pyexc \<Rightarrow> bool" where
  "is_Exception (KeyError k) = True"
| "is_Exception (External c m) = True"
| "is_Exception (NonException c m) = False"

text \<open>\<open>str(e)\<close>: a \<open>KeyError\<close> prints the \<open>repr\<close> of its key (the key in single
  quotes, for a key without quotes or backslashes such as \<open>text\<close>).\<close>

fun str_exc :: "pyexc \<Rightarrow> string" where
  "str_exc (KeyError k) = [CHR 0x27] @ k @ [CHR 0x27]"
| "str_exc (External c m) = m"
| "str_exc (NonException c m) = m"

text \<open>
  A float64 is modelled by the number it denotes: a finite value is the real number it
  stands for, and the two infinities and NaN are values of their own. Comparisons are
  the IEEE ones, which are exact: every comparison with NaN is false. No float64
  arithmetic is modelled: the one computation on floats, \<open>Series.mean\<close>, is an oracle.
\<close>

datatype pyfloat = Fin real | PosInf | NegInf | NaN

fun float_gt :: "pyfloat \<Rightarrow> pyfloat \<Rightarrow> bool" where
  "float_gt NaN _ = False"
| "float_gt _ NaN = False"
| "float_gt (Fin x) (Fin y) = (x > y)"
| "float_gt PosInf PosInf = False"
| "float_gt PosInf _ = True"
| "float_gt _ PosInf = False"
| "float_gt NegInf _ = False"
| "float_gt (Fin x) NegInf = True"

definition float_lt :: "pyfloat \<Rightarrow> pyfloat \<Rightarrow> bool" where
  "float_lt a b = float_gt b a"

fun float_neg :: "pyfloat \<Rightarrow> pyfloat" where
  "float_neg (Fin x) = Fin (- x)"
| "float_neg PosInf = NegInf"
| "float_neg NegInf = PosInf"
| "float_neg NaN = NaN"

text \<open>The literal \<open>0.2\<close> of the source is the float64 nearest to one fifth,
  \<open>3602879701896397 / 2^54\<close>; \<open>-0.2\<close> is its negation.\<close>

definition lit_0_2 :: pyfloat where
  "lit_0_2 = Fin (3602879701896397 / 18014398509481984)"

text \<open>A search result of the Reddit client (the attributes the code reads), a
  \<open>datetime\<close> (year, month, day, hour, minute, second, microsecond), and the dictionary
  \<open>get_reddit_posts\<close> builds for a post.\<close>

record submission =
  title :: string
  selftext :: string
  score :: int
  created_utc :: pyfloat

datatype datetime = Datetime int int int int int int int

record post =
  p_title :: string
  p_text :: string
  p_score :: int
  p_created_utc :: datetime

text \<open>\<open>pd.DataFrame(posts)\<close> of a list of dictionaries: the columns are the keys of the
  dictionaries, so the frame of an empty list has no column at all.\<close>

record dataframe =
  columns :: "string list"
  rows :: "post list"

definition pd_DataFrame :: "post list \<Rightarrow> dataframe" where
  "pd_DataFrame posts =
     \<lparr>columns = (if posts = [] then [] else [''title'', ''text'', ''score'', ''created_utc'']),
      rows = posts\<rparr>"

text \<open>\<open>df['text']\<close>: a missing column raises \<open>KeyError\<close>.\<close>

definition getitem_text :: "dataframe \<Rightarrow> pyexc + string list" where
  "getitem_text df =
     (if ''text'' \<in> set (columns df) then Inr (map p_text (rows df)) else Inl (KeyError ''text''))"

record candle =
  c_date :: int
  c_open :: real
  c_high :: real
  c_low :: real
  c_close :: real
  c_volume :: int

text \<open>
  Requests sent to the outside, in order. The answer of a collaborator may depend on
  everything requested so far, so the same call made twice can be answered differently.

  A search is a lazy listing: it yields submissions one by one and then either ends
  (\<open>None\<close>) or raises (\<open>Some e\<close>); a search that raises at once yields nothing.
\<close>

datatype request = Search string int | History string int

record analyzer =
  reddit :: "request list \<Rightarrow> string \<Rightarrow> int \<Rightarrow> submission list \<times> pyexc option"
  sia :: "string \<Rightarrow> pyexc + real"

text \<open>
  The process outside the analyzer: the \<open>yfinance\<close> module, the library functions
  \<open>datetime.fromtimestamp\<close> (local time zone and platform limits), \<open>Series.mean\<close> on a
  float64 column (summation order and rounding are the library's) and \<open>str.upper\<close>
  (Unicode), and the requests sent so far.
\<close>

record world =
  yf :: "request list \<Rightarrow> string \<Rightarrow> int \<Rightarrow> pyexc + candle list"
  fromtimestamp :: "pyfloat \<Rightarrow> pyexc + datetime"
  series_mean :: "real list \<Rightarrow> pyfloat"
  str_upper :: "string \<Rightarrow> string"
  sent :: "request list"

section \<open>The methods of \<open>StockSentimentAnalyzer\<close>\<close>

text \<open>The dictionary of lines 49 to 54; \<open>datetime.fromtimestamp(post.created_utc)\<close> may
  raise.\<close>

definition post_of :: "submission \<Rightarrow> datetime \<Rightarrow> post" where
  "post_of s d = \<lparr>p_title = title s, p_text = selftext s, p_score = score s, p_created_utc = d\<rparr>"

definition row_of :: "world \<Rightarrow> submission \<Rightarrow> pyexc + post" where
  "row_of w s =
     (case fromtimestamp w (created_utc s) of
        Inl e \<Rightarrow> Inl e
      | Inr d \<Rightarrow> Inr (post_of s d))"

text \<open>The loop of lines 46 to 54 over the listing: each submission yielded is turned
  into a dictionary, in order; the first exception, of the conversion or of the listing,
  ends the loop.\<close>

fun build_posts :: "world \<Rightarrow> submission list \<Rightarrow> pyexc option \<Rightarrow> pyexc + post list" where
  "build_posts w [] None = Inr []"
| "build_posts w [] (Some e) = Inl e"
| "build_posts w (s # rest) stop =
     (case row_of w s of
        Inl e \<Rightarrow> Inl e
      | Inr p \<Rightarrow> (case build_posts w rest stop of Inl e \<Rightarrow> Inl e | Inr ps \<Rightarrow> Inr (p # ps)))"

text \<open>\<open>get_reddit_posts\<close>: one search for \<open>f'{stock_symbol} stock'\<close> with the given
  limit, then the frame of the dictionaries.\<close>

definition get_reddit_posts ::
  "analyzer \<Rightarrow> string \<Rightarrow> int \<Rightarrow> world \<Rightarrow> (pyexc + dataframe) \<times> world" where
  "get_reddit_posts self stock_symbol limit w =
     (let q = stock_symbol @ '' stock'';
          w' = w\<lparr>sent := sent w @ [Search q limit]\<rparr>
      in case reddit self (sent w) q limit of
           (found, stop) \<Rightarrow>
             (case build_posts w found stop of
                Inl e \<Rightarrow> (Inl e, w')
              | Inr posts \<Rightarrow> (Inr (pd_DataFrame posts), w')))"

definition analyze_sentiment :: "analyzer \<Rightarrow> string \<Rightarrow> pyexc + real" where
  "analyze_sentiment self text = sia self text"

definition get_stock_data ::
  "string \<Rightarrow> int \<Rightarrow> world \<Rightarrow> (pyexc + candle list) \<times> world" where
  "get_stock_data stock_symbol days w =
     (yf w (sent w) stock_symbol days, w\<lparr>sent := sent w @ [History stock_symbol days]\<rparr>)"

text \<open>\<open>Series.apply(f)\<close>: \<open>f\<close> on every element in order, stopping at the first
  exception.\<close>

fun series_apply :: "('a \<Rightarrow> pyexc + 'b) \<Rightarrow> 'a list \<Rightarrow> pyexc + 'b list" where
  "series_apply f [] = Inr []"
| "series_apply f (x # xs) =
     (case f x of
        Inl e \<Rightarrow> Inl e
      | Inr y \<Rightarrow> (case series_apply f xs of Inl e \<Rightarrow> Inl e | Inr ys \<Rightarrow> Inr (y # ys)))"

text \<open>Lines 101 to 103 of \<open>predict_trend\<close>: fetch, score the \<open>text\<close> column, average.\<close>

definition avg_sentiment :: "analyzer \<Rightarrow> string \<Rightarrow> world \<Rightarrow> (pyexc + pyfloat) \<times> world" where
  "avg_sentiment self stock_symbol w =
     (case get_reddit_posts self stock_symbol 100 w of
        (Inl e, w') \<Rightarrow> (Inl e, w')
      | (Inr posts_df, w') \<Rightarrow>
          (case getitem_text posts_df of
             Inl e \<Rightarrow> (Inl e, w')
           | Inr col \<Rightarrow>
               (case series_apply (analyze_sentiment self) col of
                  Inl e \<Rightarrow> (Inl e, w')
                | Inr sentiment \<Rightarrow> (Inr (series_mean w' sentiment), w'))))"

text \<open>Lines 105 to 110 of \<open>predict_trend\<close>: the threshold policy.\<close>

definition trend_label :: "pyfloat \<Rightarrow> string" where
  "trend_label avg =
     (if float_gt avg lit_0_2 then ''Bullish (Detected - Positive sentiment)''
      else if float_lt avg (float_neg lit_0_2) then ''Bearish (Detected - Negative sentiment)''
      else ''Neutral (Detected - Mixed sentiment)'')"

definition predict_trend :: "analyzer \<Rightarrow> string \<Rightarrow> world \<Rightarrow> (pyexc + string) \<times> world" where
  "predict_trend self stock_symbol w =
     (case avg_sentiment self stock_symbol w of
        (Inl e, w') \<Rightarrow> (Inl e, w')
      | (Inr avg, w') \<Rightarrow>
          (case get_stock_data stock_symbol 30 w' of
             (Inl e, w'') \<Rightarrow> (Inl e, w'')
           | (Inr stock_data, w'') \<Rightarrow> (Inr (trend_label avg), w'')))"

section \<open>The report driver \<open>main\<close>\<close>

text \<open>
  What the process writes, in order: the prompt of \<open>input\<close>, a \<open>print\<close> of a string,
  and the line \<open>print(f"Sentiment: {x:.2f}")\<close>, kept with the number it formats.
  A run ends normally (exit status 0) or with an exception that nothing caught.
\<close>

datatype event = Prompt string | Print string | PrintSentiment real

datatype outcome = Exit0 "event list" | Uncaught pyexc "event list"

definition newline :: string where
  "newline = [CHR 0x0A]"

text \<open>The loop over \<open>posts.iterrows()\<close>: the title is printed, then the sentiment of
  the \<open>text\<close> field; an exception leaves the loop with what was printed so far.\<close>

fun sample_loop :: "analyzer \<Rightarrow> post list \<Rightarrow> event list \<Rightarrow> (pyexc + unit) \<times> event list" where
  "sample_loop analyzer [] out = (Inr (), out)"
| "sample_loop analyzer (p # ps) out =
     (let out1 = out @ [Print (newline @ ''Title: '' @ p_title p)]
      in case analyze_sentiment analyzer (p_text p) of
           Inl e \<Rightarrow> (Inl e, out1)
         | Inr x \<Rightarrow> sample_loop analyzer ps (out1 @ [PrintSentiment x]))"

text \<open>The body of the \<open>try\<close> statement of \<open>main\<close>.\<close>

definition main_try ::
  "analyzer \<Rightarrow> string \<Rightarrow> event list \<Rightarrow> world \<Rightarrow> (pyexc + unit) \<times> event list \<times> world" where
  "main_try analyzer stock_symbol out w =
     (case predict_trend analyzer stock_symbol w of
        (Inl e, w1) \<Rightarrow> (Inl e, out, w1)
      | (Inr prediction, w1) \<Rightarrow>
          (let out1 = out @ [Print (newline @ ''Analysis for '' @ stock_symbol @ '':''),
                             Print prediction]
           in case get_reddit_posts analyzer stock_symbol 5 w1 of
                (Inl e, w2) \<Rightarrow> (Inl e, out1, w2)
              | (Inr posts, w2) \<Rightarrow>
                  (let out2 = out1 @ [Print (newline @ ''Recent Reddit posts about this stock:'')]
                   in case sample_loop analyzer (rows posts) out2 of
                        (r, out3) \<Rightarrow> (r, out3, w2))))"

text \<open>
  \<open>main\<close>: the constructor \<open>StockSentimentAnalyzer()\<close> (line 124) and \<open>input(...)\<close>
  (line 125) run before the \<open>try\<close> statement, so their outcomes are arguments: \<open>Inl e\<close>
  when they raise. The handler \<open>except Exception as e\<close> prints \<open>f"Error: {str(e)}"\<close>
  and the function returns; an exception that is not an instance of \<open>Exception\<close>
  passes the handler.
\<close>

definition main :: "pyexc + analyzer \<Rightarrow> pyexc + string \<Rightarrow> world \<Rightarrow> outcome \<times> world" where
  "main constructed typed w =
     (case constructed of
        Inl e \<Rightarrow> (Uncaught e [], w)
      | Inr analyzer \<Rightarrow>
          (let out0 = [Prompt ''Enter stock symbol (e.g., AAPL): '']
           in case typed of
                Inl e \<Rightarrow> (Uncaught e out0, w)
              | Inr line \<Rightarrow>
                  (case main_try analyzer (str_upper w line) out0 w of
                     (Inr u, out, w') \<Rightarrow> (Exit0 out, w')
                   | (Inl e, out, w') \<Rightarrow>
                       if is_Exception e
                       then (Exit0 (out @ [Print (''Error: '' @ str_exc e)]), w')
                       else (Uncaught e out, w'))))"

section \<open>Observations used to state the properties\<close>

text \<open>The same analyzer, with the title of every search result replaced.\<close>

definition retitle :: "(submission \<Rightarrow> string) \<Rightarrow> analyzer \<Rightarrow> analyzer" where
  "retitle f a =
     a\<lparr>reddit := (\<lambda>lg q n. case reddit a lg q n of
                                (found, stop) \<Rightarrow> (map (\<lambda>s. s\<lparr>title := f s\<rparr>) found, stop))\<rparr>"

text \<open>What a run wrote, and the numbers of its \<open>Sentiment:\<close> lines.\<close>

fun events_of :: "outcome \<Rightarrow> event list" where
  "events_of (Exit0 out) = out"
| "events_of (Uncaught e out) = out"

fun printed_sentiments :: "event list \<Rightarrow> real list" where
  "printed_sentiments [] = []"
| "printed_sentiments (PrintSentiment x # es) = x # printed_sentiments es"
| "printed_sentiments (Prompt s # es) = printed_sentiments es"
| "printed_sentiments (Print s # es) = printed_sentiments es"

section \<open>Test doubles\<close>

text \<open>
  Collaborators with fixed answers, for evaluating the code on concrete runs. The
  scores of \<open>demo_sia\<close> are the ones VADER gives to the words "great" and "terrible".
  \<open>ascii_upper\<close> is \<open>str.upper\<close> on ASCII text, \<open>demo_clock\<close> is
  \<open>datetime.fromtimestamp\<close> in UTC on the three timestamps used here (the last is beyond
  year 9999), and \<open>plain_mean\<close> is a mean that does not round: for the two demo scores
  it is the float64 result, 0.0741.
\<close>

definition upper_char :: "char \<Rightarrow> char" where
  "upper_char c =
     (let n = of_char c :: nat in if 97 \<le> n \<and> n \<le> 122 then char_of (n - 32) else c)"

definition ascii_upper :: "string \<Rightarrow> string" where
  "ascii_upper s = map upper_char s"

definition demo_clock :: "pyfloat \<Rightarrow> pyexc + datetime" where
  "demo_clock t =
     (if t = Fin 0 then Inr (Datetime 1970 1 1 0 0 0 0)
      else if t = Fin 60 then Inr (Datetime 1970 1 1 0 1 0 0)
      else Inl (External ''ValueError'' ''year 33658 is out of range''))"

definition plain_mean :: "real list \<Rightarrow> pyfloat" where
  "plain_mean xs = (if xs = [] then NaN else Fin (sum_list xs / real (length xs)))"

definition demo_found :: "submission list" where
  "demo_found =
     [\<lparr>title = ''great'', selftext = ''terrible'', score = 7, created_utc = Fin 0\<rparr>,
      \<lparr>title = ''update'', selftext = ''great'', score = 2, created_utc = Fin 60\<rparr>]"

definition demo_sia :: "string \<Rightarrow> pyexc + real" where
  "demo_sia t = (if t = ''great'' then Inr 0.6249 else if t = ''terrible'' then Inr (- 0.4767)
                 else Inr 0)"

definition demo_analyzer :: analyzer where
  "demo_analyzer = \<lparr>reddit = (\<lambda>lg q n. (take (nat n) demo_found, None)), sia = demo_sia\<rparr>"

definition shuffled_analyzer :: analyzer where
  "shuffled_analyzer =
     \<lparr>reddit = (\<lambda>lg q n. (take (nat n) (rev demo_found), None)), sia = demo_sia\<rparr>"

definition quiet_analyzer :: analyzer where
  "quiet_analyzer = \<lparr>reddit = (\<lambda>lg q n. ([], None)), sia = demo_sia\<rparr>"

definition down_analyzer :: analyzer where
  "down_analyzer =
     \<lparr>reddit = (\<lambda>lg q n. ([], Some (External ''RequestException'' ''connection refused''))),
      sia = demo_sia\<rparr>"

definition flaky_analyzer :: analyzer where
  "flaky_analyzer =
     \<lparr>reddit = (\<lambda>lg q n. if lg = [] then ([], Some (External ''RequestException'' ''timed out''))
                          else (demo_found, None)),
      sia = demo_sia\<rparr>"

definition stale_analyzer :: analyzer where
  "stale_analyzer =
     \<lparr>reddit = (\<lambda>lg q n. ([\<lparr>title = ''old'', selftext = ''great'', score = 1,
                               created_utc = Fin 1000000000000\<rparr>], None)),
      sia = demo_sia\<rparr>"

definition interrupted_analyzer :: analyzer where
  "interrupted_analyzer =
     \<lparr>reddit = (\<lambda>lg q n. ([], Some (NonException ''KeyboardInterrupt'' ''''))), sia = demo_sia\<rparr>"

definition world0 :: world where
  "world0 = \<lparr>yf = (\<lambda>lg s d. Inr []), fromtimestamp = demo_clock, series_mean = plain_mean,
              str_upper = ascii_upper, sent = []\<rparr>"

definition world1 :: world where
  "world1 = \<lparr>yf = (\<lambda>lg s d. Inr [\<lparr>c_date = 0, c_open = 1, c_high = 2, c_low = 1, c_close = 2,
                                   c_volume = 10\<rparr>]),
             fromtimestamp = demo_clock, series_mean = plain_mean, str_upper = ascii_upper,
             sent = []\<rparr>"

definition world_down :: world where
  "world_down = \<lparr>yf = (\<lambda>lg s d. Inl (External ''YFException'' ''no data'')),
                 fromtimestamp = demo_clock, series_mean = plain_mean, str_upper = ascii_upper,
                 sent = []\<rparr>"

section \<open>What the methods return\<close>

lemma analyze_sentiment_eq: "analyze_sentiment a = sia a"
  by (rule ext) (simp add: analyze_sentiment_def)

lemma series_apply_length: "series_apply f xs = Inr ys \<Longrightarrow> length ys = length xs"
  by (induction xs arbitrary: ys) (auto split: sum.splits)

lemma series_apply_raises: "series_apply f xs = Inl e \<Longrightarrow> \<exists>x\<in>set xs. f x = Inl e"
  by (induction xs) (auto split: sum.splits)

lemma series_apply_Cons_Inr:
  "series_apply f (x # xs) = Inr zs \<longleftrightarrow>
     (\<exists>y ys. f x = Inr y \<and> series_apply f xs = Inr ys \<and> zs = y # ys)"
  by (auto split: sum.splits)

text \<open>The conversions of the timestamps decide whether the loop fails; the rows are
  the submissions with their converted timestamps.\<close>

lemma rows_of_found:
  "series_apply (row_of w) found =
     (case series_apply (fromtimestamp w) (map created_utc found) of
        Inl e \<Rightarrow> Inl e
      | Inr ds \<Rightarrow> Inr (map2 post_of found ds))"
  by (induction found) (simp_all add: row_of_def split: sum.split)

lemma build_posts_eq:
  "build_posts w found stop =
     (case series_apply (row_of w) found of
        Inl e \<Rightarrow> Inl e
      | Inr ps \<Rightarrow> (case stop of Some e \<Rightarrow> Inl e | None \<Rightarrow> Inr ps))"
proof (induction found)
  case Nil
  then show ?case by (cases stop) simp_all
next
  case (Cons s rest)
  then show ?case by (simp split: sum.split option.split)
qed

lemma get_reddit_posts_result:
  "reddit a (sent w) (s @ '' stock'') n = (found, stop) \<Longrightarrow>
   fst (get_reddit_posts a s n w) =
     (case series_apply (fromtimestamp w) (map created_utc found) of
        Inl e \<Rightarrow> Inl e
      | Inr ds \<Rightarrow>
          (case stop of
             Some e \<Rightarrow> Inl e
           | None \<Rightarrow> Inr (pd_DataFrame (map2 post_of found ds))))"
  by (simp add: get_reddit_posts_def Let_def build_posts_eq rows_of_found
      split: sum.split option.split)

lemma get_reddit_posts_world:
  "snd (get_reddit_posts a s n w) = w\<lparr>sent := sent w @ [Search (s @ '' stock'') n]\<rparr>"
  by (simp add: get_reddit_posts_def Let_def split: sum.split prod.split)

lemma texts_of_rows:
  assumes "length found = length ds"
  shows "map p_text (map2 post_of found ds) = map selftext found"
  using assms by (induction rule: list_induct2) (simp_all add: post_of_def)

lemma getitem_text_frame:
  assumes "length found = length ds"
  shows "getitem_text (pd_DataFrame (map2 post_of found ds)) =
     (if found = [] then Inl (KeyError ''text'') else Inr (map selftext found))"
proof (cases found)
  case Nil
  then show ?thesis by (simp add: getitem_text_def pd_DataFrame_def)
next
  case (Cons x xs)
  with assms obtain d dd where "ds = d # dd" by (cases ds) auto
  with Cons texts_of_rows [OF assms] show ?thesis
    by (simp add: getitem_text_def pd_DataFrame_def)
qed

lemma avg_sentiment_fetch:
  "fst (avg_sentiment a s w) =
     (case fst (get_reddit_posts a s 100 w) of
        Inl e \<Rightarrow> Inl e
      | Inr posts_df \<Rightarrow>
          (case getitem_text posts_df of
             Inl e \<Rightarrow> Inl e
           | Inr col \<Rightarrow>
               (case series_apply (sia a) col of
                  Inl e \<Rightarrow> Inl e
                | Inr xs \<Rightarrow> Inr (series_mean w xs))))"
proof -
  obtain r w' where g: "get_reddit_posts a s 100 w = (r, w')"
    by (cases "get_reddit_posts a s 100 w")
  have "w' = w\<lparr>sent := sent w @ [Search (s @ '' stock'') 100]\<rparr>"
    using get_reddit_posts_world [of a s 100 w] g by simp
  then have m: "series_mean w' = series_mean w" by simp
  show ?thesis
    unfolding avg_sentiment_def g
    by (simp add: m analyze_sentiment_eq split: sum.split)
qed

lemma avg_sentiment_result:
  assumes "reddit a (sent w) (s @ '' stock'') 100 = (found, stop)"
  shows "fst (avg_sentiment a s w) =
     (case series_apply (fromtimestamp w) (map created_utc found) of
        Inl e \<Rightarrow> Inl e
      | Inr ds \<Rightarrow>
          (case stop of
             Some e \<Rightarrow> Inl e
           | None \<Rightarrow>
               if found = [] then Inl (KeyError ''text'')
               else (case series_apply (sia a) (map selftext found) of
                       Inl e \<Rightarrow> Inl e
                     | Inr xs \<Rightarrow> Inr (series_mean w xs))))"
proof (cases "series_apply (fromtimestamp w) (map created_utc found)")
  case (Inl e)
  then show ?thesis
    by (simp add: avg_sentiment_fetch get_reddit_posts_result [OF assms])
next
  case ds: (Inr ds)
  then have "length found = length ds"
    using series_apply_length [of "fromtimestamp w" "map created_utc found" ds] by simp
  note column = getitem_text_frame [OF this]
  have fetched: "fst (get_reddit_posts a s 100 w) =
      (case stop of Some e \<Rightarrow> Inl e | None \<Rightarrow> Inr (pd_DataFrame (map2 post_of found ds)))"
    by (simp add: get_reddit_posts_result [OF assms] ds)
  show ?thesis
  proof (cases stop)
    case (Some e)
    then show ?thesis by (simp add: avg_sentiment_fetch fetched ds)
  next
    case None
    show ?thesis
      apply (simp only: avg_sentiment_fetch fetched ds None option.case sum.case column)
      apply (cases "found = []")
       apply simp_all
      done
  qed
qed

lemma avg_sentiment_world:
  "snd (avg_sentiment a s w) = w\<lparr>sent := sent w @ [Search (s @ '' stock'') 100]\<rparr>"
proof -
  obtain r w' where g: "get_reddit_posts a s 100 w = (r, w')"
    by (cases "get_reddit_posts a s 100 w")
  have "w' = w\<lparr>sent := sent w @ [Search (s @ '' stock'') 100]\<rparr>"
    using get_reddit_posts_world [of a s 100 w] g by simp
  then show ?thesis
    unfolding avg_sentiment_def g by (simp split: sum.split)
qed

lemma predict_trend_result:
  "fst (predict_trend a s w) =
     (case fst (avg_sentiment a s w) of
        Inl e \<Rightarrow> Inl e
      | Inr m \<Rightarrow>
          (case yf w (sent w @ [Search (s @ '' stock'') 100]) s 30 of
             Inl e \<Rightarrow> Inl e
           | Inr d \<Rightarrow> Inr (trend_label m)))"
proof -
  obtain r w' where g: "avg_sentiment a s w = (r, w')"
    by (cases "avg_sentiment a s w")
  have w': "w' = w\<lparr>sent := sent w @ [Search (s @ '' stock'') 100]\<rparr>"
    using avg_sentiment_world [of a s w] g by simp
  show ?thesis
    unfolding predict_trend_def g
    by (simp add: w' get_stock_data_def split: sum.split)
qed

lemma predict_trend_world:
  "sent (snd (predict_trend a s w)) =
     (case fst (avg_sentiment a s w) of
        Inl e \<Rightarrow> sent w @ [Search (s @ '' stock'') 100]
      | Inr m \<Rightarrow> sent w @ [Search (s @ '' stock'') 100, History s 30])"
proof -
  obtain r w' where g: "avg_sentiment a s w = (r, w')"
    by (cases "avg_sentiment a s w")
  have w': "w' = w\<lparr>sent := sent w @ [Search (s @ '' stock'') 100]\<rparr>"
    using avg_sentiment_world [of a s w] g by simp
  show ?thesis
    unfolding predict_trend_def g
    by (simp add: w' get_stock_data_def split: sum.split)
qed

lemma float_gt_lit_not_lt: "float_gt m lit_0_2 \<Longrightarrow> \<not> float_lt m (float_neg lit_0_2)"
  by (cases m) (simp_all add: lit_0_2_def float_lt_def)

lemma ascii_upper_aapl: "ascii_upper ''aapl'' = ''AAPL''"
  by code_simp

lemma ascii_upper_zzzz: "ascii_upper ''zzzz'' = ''ZZZZ''"
  by code_simp

text \<open>Unfolding rules for evaluating concrete runs.\<close>

lemmas run_defs =
  main_def main_try_def predict_trend_def avg_sentiment_def get_reddit_posts_def
  get_stock_data_def analyze_sentiment_def getitem_text_def pd_DataFrame_def row_of_def
  post_of_def trend_label_def lit_0_2_def float_lt_def newline_def

lemmas double_defs =
  demo_found_def demo_sia_def demo_clock_def plain_mean_def demo_analyzer_def
  shuffled_analyzer_def quiet_analyzer_def down_analyzer_def flaky_analyzer_def
  stale_analyzer_def interrupted_analyzer_def world0_def world1_def world_down_def

section \<open>The threshold policy\<close>

text \<open>
  C1. The label follows the thresholds exactly: it is the Bullish string if and only if
  the mean is greater than the literal \<open>0.2\<close>, the Bearish string if and only if it is
  less than \<open>-0.2\<close>, and the Neutral string in every other case. Both comparisons are
  strict: a mean equal to \<open>0.2\<close> or to \<open>-0.2\<close> is Neutral. The label \<open>predict_trend\<close>
  returns is the label of the mean it computed.
\<close>

theorem trend_label_threshold_policy:
  "(trend_label m = ''Bullish (Detected - Positive sentiment)'' \<longleftrightarrow> float_gt m lit_0_2) \<and>
   (trend_label m = ''Bearish (Detected - Negative sentiment)'' \<longleftrightarrow>
      float_lt m (float_neg lit_0_2)) \<and>
   (trend_label m = ''Neutral (Detected - Mixed sentiment)'' \<longleftrightarrow>
      \<not> float_gt m lit_0_2 \<and> \<not> float_lt m (float_neg lit_0_2)) \<and>
   trend_label lit_0_2 = ''Neutral (Detected - Mixed sentiment)'' \<and>
   trend_label (float_neg lit_0_2) = ''Neutral (Detected - Mixed sentiment)'' \<and>
   (fst (predict_trend a s w) = Inr l \<longrightarrow>
      (\<exists>avg. fst (avg_sentiment a s w) = Inr avg \<and> l = trend_label avg))"
proof -
  have excl: "float_gt m lit_0_2 \<Longrightarrow> \<not> float_lt m (float_neg lit_0_2)"
    by (rule float_gt_lit_not_lt)
  have bull: "trend_label m = ''Bullish (Detected - Positive sentiment)'' \<longleftrightarrow> float_gt m lit_0_2"
    by (simp add: trend_label_def)
  have bear: "trend_label m = ''Bearish (Detected - Negative sentiment)'' \<longleftrightarrow>
      float_lt m (float_neg lit_0_2)"
    using excl by (auto simp add: trend_label_def)
  have neut: "trend_label m = ''Neutral (Detected - Mixed sentiment)'' \<longleftrightarrow>
      \<not> float_gt m lit_0_2 \<and> \<not> float_lt m (float_neg lit_0_2)"
    by (simp add: trend_label_def)
  have at_pos: "trend_label lit_0_2 = ''Neutral (Detected - Mixed sentiment)''"
    by (simp add: trend_label_def lit_0_2_def float_lt_def)
  have at_neg: "trend_label (float_neg lit_0_2) = ''Neutral (Detected - Mixed sentiment)''"
    by (simp add: trend_label_def lit_0_2_def float_lt_def)
  have link: "fst (predict_trend a s w) = Inr l \<longrightarrow>
      (\<exists>avg. fst (avg_sentiment a s w) = Inr avg \<and> l = trend_label avg)"
    by (auto simp add: predict_trend_result split: sum.splits)
  from bull bear neut at_pos at_neg link show ?thesis by blast
qed

theorem trend_label_threshold_policy_witness:
  "fst (predict_trend demo_analyzer ''AAPL'' world0) = Inr ''Neutral (Detected - Mixed sentiment)'' \<and>
   fst (avg_sentiment demo_analyzer ''AAPL'' world0) = Inr (Fin 0.0741) \<and>
   trend_label (Fin 0.0741) = ''Neutral (Detected - Mixed sentiment)'' \<and>
   \<not> float_gt (Fin 0.0741) lit_0_2 \<and> \<not> float_lt (Fin 0.0741) (float_neg lit_0_2)"
  using trend_label_threshold_policy [of "Fin 0.0741" demo_analyzer "''AAPL''" world0
      "''Neutral (Detected - Mixed sentiment)''"]
  by (simp add: run_defs double_defs)

section \<open>No post found\<close>

text \<open>A search that finds nothing gives a frame without columns, and the lookup of its
  \<open>text\<close> column raises before any mean is taken.\<close>

lemma predict_trend_empty_fetch:
  "reddit a (sent w) (s @ '' stock'') 100 = ([], None) \<Longrightarrow>
   fst (predict_trend a s w) = Inl (KeyError ''text'')"
  by (simp add: predict_trend_result avg_sentiment_result)

text \<open>
  C2. With no post found, \<open>predict_trend\<close> has no fallback outcome: on the analyzer
  whose search finds nothing it raises \<open>KeyError('text')\<close>, and the report driver prints
  \<open>Error: 'text'\<close>.
\<close>

theorem predict_trend_no_posts_raises:
  "fst (predict_trend quiet_analyzer ''ZZZZ'' world0) = Inl (KeyError ''text'') \<and>
   fst (main (Inr quiet_analyzer) (Inr ''zzzz'') world0) =
     Exit0 [Prompt ''Enter stock symbol (e.g., AAPL): '',
            Print (''Error: '' @ [CHR 0x27] @ ''text'' @ [CHR 0x27])]"
  by (simp add: run_defs double_defs ascii_upper_zzzz)

section \<open>The three labels\<close>

text \<open>
  C10. A call of \<open>predict_trend\<close> that returns gives one of the three fixed strings.
  A mean for which neither strict comparison holds gets the Neutral string; NaN is such
  a mean.
\<close>

theorem predict_trend_three_labels:
  "(fst (predict_trend a s w) = Inr l \<longrightarrow>
      l = ''Bullish (Detected - Positive sentiment)'' \<or>
      l = ''Bearish (Detected - Negative sentiment)'' \<or>
      l = ''Neutral (Detected - Mixed sentiment)'') \<and>
   (\<not> float_gt m lit_0_2 \<and> \<not> float_lt m (float_neg lit_0_2) \<longrightarrow>
      trend_label m = ''Neutral (Detected - Mixed sentiment)'') \<and>
   trend_label NaN = ''Neutral (Detected - Mixed sentiment)''"
proof -
  have ex: "fst (predict_trend a s w) = Inr l \<longrightarrow> (\<exists>avg. l = trend_label avg)"
    by (auto simp add: predict_trend_result split: sum.splits)
  have lab: "trend_label avg = ''Bullish (Detected - Positive sentiment)'' \<or>
      trend_label avg = ''Bearish (Detected - Negative sentiment)'' \<or>
      trend_label avg = ''Neutral (Detected - Mixed sentiment)''" for avg
    by (simp add: trend_label_def)
  have one: "fst (predict_trend a s w) = Inr l \<longrightarrow>
      l = ''Bullish (Detected - Positive sentiment)'' \<or>
      l = ''Bearish (Detected - Negative sentiment)'' \<or>
      l = ''Neutral (Detected - Mixed sentiment)''"
  proof
    assume "fst (predict_trend a s w) = Inr l"
    with ex obtain avg where "l = trend_label avg" by blast
    with lab [of avg] show "l = ''Bullish (Detected - Positive sentiment)'' \<or>
      l = ''Bearish (Detected - Negative sentiment)'' \<or>
      l = ''Neutral (Detected - Mixed sentiment)''" by simp
  qed
  have two: "\<not> float_gt m lit_0_2 \<and> \<not> float_lt m (float_neg lit_0_2) \<longrightarrow>
      trend_label m = ''Neutral (Detected - Mixed sentiment)''"
    by (simp add: trend_label_def)
  have three: "trend_label NaN = ''Neutral (Detected - Mixed sentiment)''"
    by (simp add: trend_label_def float_lt_def lit_0_2_def)
  from one two three show ?thesis by blast
qed

theorem predict_trend_three_labels_witness:
  "fst (predict_trend shuffled_analyzer ''TSLA'' world1) = Inr ''Neutral (Detected - Mixed sentiment)'' \<and>
   \<not> float_gt (Fin 0) lit_0_2 \<and> \<not> float_lt (Fin 0) (float_neg lit_0_2) \<and>
   trend_label (Fin 0) = ''Neutral (Detected - Mixed sentiment)''"
  using predict_trend_three_labels [of shuffled_analyzer "''TSLA''" world1
      "''Neutral (Detected - Mixed sentiment)''" "Fin 0"]
  by (simp add: run_defs double_defs)

section \<open>Arguments of the post fetch\<close>

text \<open>
  C3, as stated: the fetch fails with \<open>InvalidArgument\<close> for an empty symbol and for a
  limit of zero or less. It does not: with a search that answers, an empty symbol with
  limit 100 returns the posts found for the query \<open>" stock"\<close>, and a limit of 0 or -1
  returns an empty frame.
\<close>

theorem get_reddit_posts_invalid_argument_counterexample:
  "fst (get_reddit_posts demo_analyzer [] 100 world0) =
     Inr (pd_DataFrame
       [\<lparr>p_title = ''great'', p_text = ''terrible'', p_score = 7,
          p_created_utc = Datetime 1970 1 1 0 0 0 0\<rparr>,
        \<lparr>p_title = ''update'', p_text = ''great'', p_score = 2,
          p_created_utc = Datetime 1970 1 1 0 1 0 0\<rparr>]) \<and>
   fst (get_reddit_posts demo_analyzer ''AAPL'' 0 world0) = Inr (pd_DataFrame []) \<and>
   fst (get_reddit_posts demo_analyzer [] (- 1) world0) = Inr (pd_DataFrame [])"
  by (simp add: get_reddit_posts_def row_of_def post_of_def demo_analyzer_def demo_found_def
      demo_clock_def world0_def)

text \<open>
  C3, amended. \<open>get_reddit_posts\<close> checks neither argument: for every symbol and every
  limit it sends one search, for the query \<open>symbol + " stock"\<close> with that limit. An
  exception it raises is the one of that search or the one of
  \<open>datetime.fromtimestamp\<close> on the timestamp of a submission found, never one of its
  own. When every timestamp converts, it returns the frame of the submissions if the
  search ended, and raises the exception of the search if the search raised.
\<close>

theorem get_reddit_posts_no_validation:
  "sent (snd (get_reddit_posts a s n w)) = sent w @ [Search (s @ '' stock'') n] \<and>
   (reddit a (sent w) (s @ '' stock'') n = (found, stop) \<and>
    fst (get_reddit_posts a s n w) = Inl e \<longrightarrow>
      stop = Some e \<or> (\<exists>p\<in>set found. fromtimestamp w (created_utc p) = Inl e)) \<and>
   (reddit a (sent w) (s @ '' stock'') n = (found, None) \<and>
    series_apply (fromtimestamp w) (map created_utc found) = Inr ds \<longrightarrow>
      fst (get_reddit_posts a s n w) = Inr (pd_DataFrame (map2 post_of found ds))) \<and>
   (reddit a (sent w) (s @ '' stock'') n = (found, Some e') \<and>
    series_apply (fromtimestamp w) (map created_utc found) = Inr ds \<longrightarrow>
      fst (get_reddit_posts a s n w) = Inl e')"
proof -
  have one: "sent (snd (get_reddit_posts a s n w)) = sent w @ [Search (s @ '' stock'') n]"
    by (simp add: get_reddit_posts_world)
  have two: "reddit a (sent w) (s @ '' stock'') n = (found, stop) \<and>
      fst (get_reddit_posts a s n w) = Inl e \<longrightarrow>
      stop = Some e \<or> (\<exists>p\<in>set found. fromtimestamp w (created_utc p) = Inl e)"
  proof (intro impI, elim conjE)
    assume r: "reddit a (sent w) (s @ '' stock'') n = (found, stop)"
      and f: "fst (get_reddit_posts a s n w) = Inl e"
    show "stop = Some e \<or> (\<exists>p\<in>set found. fromtimestamp w (created_utc p) = Inl e)"
    proof (cases "series_apply (fromtimestamp w) (map created_utc found)")
      case (Inl e1)
      with f have "e1 = e" by (simp add: get_reddit_posts_result [OF r])
      with Inl series_apply_raises [of "fromtimestamp w" "map created_utc found" e]
      show ?thesis by auto
    next
      case (Inr ds1)
      with f show ?thesis
        by (simp add: get_reddit_posts_result [OF r] split: option.splits)
    qed
  qed
  have three: "reddit a (sent w) (s @ '' stock'') n = (found, None) \<and>
      series_apply (fromtimestamp w) (map created_utc found) = Inr ds \<longrightarrow>
      fst (get_reddit_posts a s n w) = Inr (pd_DataFrame (map2 post_of found ds))"
    by (auto simp add: get_reddit_posts_result)
  have four: "reddit a (sent w) (s @ '' stock'') n = (found, Some e') \<and>
      series_apply (fromtimestamp w) (map created_utc found) = Inr ds \<longrightarrow>
      fst (get_reddit_posts a s n w) = Inl e'"
    by (auto simp add: get_reddit_posts_result)
  from one two three four show ?thesis by blast
qed

theorem get_reddit_posts_no_validation_witness:
  "reddit demo_analyzer (sent world0) ([] @ '' stock'') 100 = (demo_found, None) \<and>
   series_apply (fromtimestamp world0) (map created_utc demo_found) =
     Inr [Datetime 1970 1 1 0 0 0 0, Datetime 1970 1 1 0 1 0 0] \<and>
   fst (get_reddit_posts demo_analyzer [] 100 world0) =
     Inr (pd_DataFrame (map2 post_of demo_found
       [Datetime 1970 1 1 0 0 0 0, Datetime 1970 1 1 0 1 0 0])) \<and>
   sent (snd (get_reddit_posts demo_analyzer [] 100 world0)) = [Search '' stock'' 100] \<and>
   reddit down_analyzer (sent world0) (''AAPL'' @ '' stock'') 0 =
     ([], Some (External ''RequestException'' ''connection refused'')) \<and>
   series_apply (fromtimestamp world0) (map created_utc []) = Inr [] \<and>
   fst (get_reddit_posts down_analyzer ''AAPL'' 0 world0) =
     Inl (External ''RequestException'' ''connection refused'') \<and>
   reddit stale_analyzer (sent world0) (''AAPL'' @ '' stock'') 5 =
     ([\<lparr>title = ''old'', selftext = ''great'', score = 1, created_utc = Fin 1000000000000\<rparr>],
      None) \<and>
   fst (get_reddit_posts stale_analyzer ''AAPL'' 5 world0) =
     Inl (External ''ValueError'' ''year 33658 is out of range'') \<and>
   fromtimestamp world0 (Fin 1000000000000) =
     Inl (External ''ValueError'' ''year 33658 is out of range'')"
proof -
  let ?ds = "[Datetime 1970 1 1 0 0 0 0, Datetime 1970 1 1 0 1 0 0]"
  let ?down = "External ''RequestException'' ''connection refused''"
  let ?old = "\<lparr>title = ''old'', selftext = ''great'', score = 1, created_utc = Fin 1000000000000\<rparr>"
  let ?range = "External ''ValueError'' ''year 33658 is out of range''"
  have a1: "reddit demo_analyzer (sent world0) ([] @ '' stock'') 100 = (demo_found, None)"
    by (simp add: demo_analyzer_def demo_found_def)
  have a2: "series_apply (fromtimestamp world0) (map created_utc demo_found) = Inr ?ds"
    by (simp add: world0_def demo_found_def demo_clock_def)
  have b1: "reddit down_analyzer (sent world0) (''AAPL'' @ '' stock'') 0 = ([], Some ?down)"
    by (simp add: down_analyzer_def)
  have b2: "series_apply (fromtimestamp world0) (map created_utc []) = Inr []"
    by simp
  have c1: "reddit stale_analyzer (sent world0) (''AAPL'' @ '' stock'') 5 = ([?old], None)"
    by (simp add: stale_analyzer_def)
  have c2: "fst (get_reddit_posts stale_analyzer ''AAPL'' 5 world0) = Inl ?range"
    by (simp add: get_reddit_posts_def row_of_def stale_analyzer_def world0_def demo_clock_def)
  have c3: "fromtimestamp world0 (Fin 1000000000000) = Inl ?range"
    by (simp add: world0_def demo_clock_def)
  note demo = get_reddit_posts_no_validation [of demo_analyzer "[]" 100 world0 demo_found None _ ?ds]
  note down = get_reddit_posts_no_validation [of down_analyzer "''AAPL''" 0 world0 "[]" _ _ "[]" ?down]
  from demo a1 a2 have a3: "fst (get_reddit_posts demo_analyzer [] 100 world0) =
      Inr (pd_DataFrame (map2 post_of demo_found ?ds))"
    by blast
  from demo have a4: "sent (snd (get_reddit_posts demo_analyzer [] 100 world0)) =
      [Search '' stock'' 100]"
    by (simp add: world0_def)
  from down b1 b2 have b3: "fst (get_reddit_posts down_analyzer ''AAPL'' 0 world0) = Inl ?down"
    by blast
  from a1 a2 a3 a4 b1 b2 b3 c1 c2 c3 show ?thesis by blast
qed

section \<open>Titles and bodies\<close>

lemma retitle_sia: "sia (retitle f a) = sia a"
  by (simp add: retitle_def)

lemma retitle_reddit:
  "reddit a lg q n = (found, stop) \<Longrightarrow>
   reddit (retitle f a) lg q n = (map (\<lambda>s. s\<lparr>title := f s\<rparr>) found, stop)"
  by (simp add: retitle_def)

lemma avg_sentiment_retitle: "avg_sentiment (retitle f a) s w = avg_sentiment a s w"
proof (rule prod_eqI)
  obtain found stop where r: "reddit a (sent w) (s @ '' stock'') 100 = (found, stop)"
    by (cases "reddit a (sent w) (s @ '' stock'') 100")
  show "fst (avg_sentiment (retitle f a) s w) = fst (avg_sentiment a s w)"
    by (simp add: avg_sentiment_result [OF r] avg_sentiment_result [OF retitle_reddit [OF r]]
        retitle_sia comp_def split: sum.split option.split)
  show "snd (avg_sentiment (retitle f a) s w) = snd (avg_sentiment a s w)"
    by (simp add: avg_sentiment_world)
qed

lemma predict_trend_retitle: "predict_trend (retitle f a) s w = predict_trend a s w"
  by (simp add: predict_trend_def avg_sentiment_retitle)

lemma printed_sentiments_append:
  "printed_sentiments (xs @ ys) = printed_sentiments xs @ printed_sentiments ys"
  by (induction xs rule: printed_sentiments.induct) simp_all

lemma sample_loop_retitle:
  "map p_text ps' = map p_text ps \<Longrightarrow> printed_sentiments out' = printed_sentiments out \<Longrightarrow>
   fst (sample_loop (retitle f a) ps' out') = fst (sample_loop a ps out) \<and>
   printed_sentiments (snd (sample_loop (retitle f a) ps' out')) =
     printed_sentiments (snd (sample_loop a ps out))"
proof (induction ps arbitrary: ps' out out')
  case Nil
  then show ?case by simp
next
  case (Cons p ps)
  from Cons.prems(1) obtain p' qs where ps': "ps' = p' # qs"
    and hd: "p_text p' = p_text p" and tl: "map p_text qs = map p_text ps"
    by (cases ps') auto
  show ?case
  proof (cases "sia a (p_text p)")
    case (Inl e)
    then show ?thesis
      using Cons.prems(2)
      by (simp add: ps' hd analyze_sentiment_def retitle_sia printed_sentiments_append)
  next
    case (Inr x)
    let ?o = "out @ [Print (newline @ ''Title: '' @ p_title p)] @ [PrintSentiment x]"
    let ?o' = "out' @ [Print (newline @ ''Title: '' @ p_title p')] @ [PrintSentiment x]"
    have "printed_sentiments ?o' = printed_sentiments ?o"
      using Cons.prems(2) by (simp add: printed_sentiments_append)
    from Cons.IH [OF tl this] show ?thesis
      using Inr by (simp add: ps' hd analyze_sentiment_def retitle_sia)
  qed
qed

lemma rows_frame: "rows (pd_DataFrame ps) = ps"
  by (simp add: pd_DataFrame_def)

lemma main_try_retitle:
  "fst (main_try (retitle f a) s out w) = fst (main_try a s out w) \<and>
   printed_sentiments (fst (snd (main_try (retitle f a) s out w))) =
     printed_sentiments (fst (snd (main_try a s out w)))"
proof -
  obtain r w1 where p: "predict_trend a s w = (r, w1)"
    by (cases "predict_trend a s w")
  show ?thesis
  proof (cases r)
    case (Inl e)
    then show ?thesis by (simp add: main_try_def predict_trend_retitle p)
  next
    case (Inr prediction)
    let ?o = "out @ [Print (newline @ ''Analysis for '' @ s @ '':''), Print prediction]"
    let ?o2 = "?o @ [Print (newline @ ''Recent Reddit posts about this stock:'')]"
    let ?w2 = "w1\<lparr>sent := sent w1 @ [Search (s @ '' stock'') 5]\<rparr>"
    let ?g = "\<lambda>s. s\<lparr>title := f s\<rparr>"
    obtain found stop where fs: "reddit a (sent w1) (s @ '' stock'') 5 = (found, stop)"
      by (cases "reddit a (sent w1) (s @ '' stock'') 5")
    note fs' = retitle_reddit [OF fs, of f]
    define r2 where "r2 = fst (get_reddit_posts a s 5 w1)"
    define r2' where "r2' = fst (get_reddit_posts (retitle f a) s 5 w1)"
    have g: "get_reddit_posts a s 5 w1 = (r2, ?w2)"
      using get_reddit_posts_world [of a s 5 w1] by (simp add: r2_def prod_eq_iff)
    have g': "get_reddit_posts (retitle f a) s 5 w1 = (r2', ?w2)"
      using get_reddit_posts_world [of "retitle f a" s 5 w1] by (simp add: r2'_def prod_eq_iff)
    have r2: "r2 = (case series_apply (fromtimestamp w1) (map created_utc found) of
        Inl e \<Rightarrow> Inl e
      | Inr ds \<Rightarrow>
          (case stop of
             Some e \<Rightarrow> Inl e
           | None \<Rightarrow> Inr (pd_DataFrame (map2 post_of found ds))))"
      unfolding r2_def by (rule get_reddit_posts_result [OF fs])
    have r2': "r2' = (case series_apply (fromtimestamp w1) (map created_utc found) of
        Inl e \<Rightarrow> Inl e
      | Inr ds \<Rightarrow>
          (case stop of
             Some e \<Rightarrow> Inl e
           | None \<Rightarrow> Inr (pd_DataFrame (map2 post_of (map ?g found) ds))))"
      unfolding r2'_def using get_reddit_posts_result [OF fs'] by (simp add: comp_def)
    show ?thesis
    proof (cases "series_apply (fromtimestamp w1) (map created_utc found)")
      case (Inl e)
      then show ?thesis
        by (simp add: main_try_def predict_trend_retitle p Inr g g' r2 r2')
    next
      case ds: (Inr ds)
      show ?thesis
      proof (cases stop)
        case (Some e)
        then show ?thesis
          by (simp add: main_try_def predict_trend_retitle p Inr g g' r2 r2' ds)
      next
        case None
        define ps where "ps = map2 post_of found ds"
        define ps' where "ps' = map2 post_of (map ?g found) ds"
        have len: "length found = length ds"
          using series_apply_length [OF ds] by simp
        then have len': "length (map ?g found) = length ds" by simp
        have texts: "map p_text ps' = map p_text ps"
          unfolding ps_def ps'_def
          by (simp only: texts_of_rows [OF len] texts_of_rows [OF len']) (simp add: comp_def)
        have m: "main_try a s out w =
            (fst (sample_loop a ps ?o2), snd (sample_loop a ps ?o2), ?w2)"
          by (simp add: main_try_def p Inr g r2 ds None rows_frame ps_def split: prod.split)
        have m': "main_try (retitle f a) s out w =
            (fst (sample_loop (retitle f a) ps' ?o2), snd (sample_loop (retitle f a) ps' ?o2), ?w2)"
          by (simp add: main_try_def predict_trend_retitle p Inr g' r2' ds None rows_frame
              ps'_def split: prod.split)
        from sample_loop_retitle [OF texts refl, where out = ?o2 and f = f and a = a]
        show ?thesis
          by (simp only: m m' fst_conv snd_conv)
      qed
    qed
  qed
qed

lemma main_events:
  "events_of (fst (main (Inr a) (Inr line) w)) =
     (case fst (main_try a (str_upper w line) [Prompt ''Enter stock symbol (e.g., AAPL): ''] w) of
        Inl e \<Rightarrow>
          if is_Exception e
          then fst (snd (main_try a (str_upper w line) [Prompt ''Enter stock symbol (e.g., AAPL): ''] w))
                 @ [Print (''Error: '' @ str_exc e)]
          else fst (snd (main_try a (str_upper w line) [Prompt ''Enter stock symbol (e.g., AAPL): ''] w))
      | Inr u \<Rightarrow> fst (snd (main_try a (str_upper w line) [Prompt ''Enter stock symbol (e.g., AAPL): ''] w)))"
  by (simp add: main_def Let_def split: prod.split sum.split)

lemma sample_loop_all_scored:
  "series_apply (sia a) (map p_text ps) = Inr xs \<Longrightarrow>
   sample_loop a ps out =
     (Inr (), out @ concat (map2 (\<lambda>p x. [Print (newline @ ''Title: '' @ p_title p),
                                            PrintSentiment x]) ps xs))"
proof (induction ps arbitrary: xs out)
  case Nil
  then show ?case by simp
next
  case (Cons p ps)
  from Cons.prems have "\<exists>y ys. sia a (p_text p) = Inr y \<and>
      series_apply (sia a) (map p_text ps) = Inr ys \<and> xs = y # ys"
    by (simp only: list.map series_apply_Cons_Inr)
  then obtain y ys where y: "sia a (p_text p) = Inr y"
    and ys: "series_apply (sia a) (map p_text ps) = Inr ys" and xs: "xs = y # ys"
    by blast
  from Cons.IH [OF ys] show ?case
    by (simp add: y xs analyze_sentiment_def)
qed

text \<open>
  C4, as stated: the title is scored only in the sample report. It is not scored there
  either: for the post titled "great" with the body "terrible" the report prints the
  title and then the score of the body, -0.4767, not the 0.6249 of the title.
\<close>

theorem sample_report_scores_title_counterexample:
  "fst (main (Inr demo_analyzer) (Inr ''aapl'') world0) =
     Exit0 [Prompt ''Enter stock symbol (e.g., AAPL): '',
            Print (newline @ ''Analysis for AAPL:''),
            Print ''Neutral (Detected - Mixed sentiment)'',
            Print (newline @ ''Recent Reddit posts about this stock:''),
            Print (newline @ ''Title: great''), PrintSentiment (- 0.4767),
            Print (newline @ ''Title: update''), PrintSentiment 0.6249] \<and>
   analyze_sentiment demo_analyzer ''great'' = Inr 0.6249 \<and>
   analyze_sentiment demo_analyzer ''terrible'' = Inr (- 0.4767) \<and>
   analyze_sentiment demo_analyzer ''update'' = Inr 0"
  by (simp add: run_defs double_defs ascii_upper_aapl)

text \<open>
  C4, amended. Only the body text is scored, in the aggregate and in the sample report
  alike, and the title is never scored. Replacing every title changes neither the
  result of \<open>predict_trend\<close> nor the numbers of the \<open>Sentiment:\<close> lines of the
  report; the mean is the mean of the scores of the bodies; and the report prints each
  title followed by the score of the body of the same post.
\<close>

theorem title_never_scored:
  "fst (predict_trend (retitle f a) s w) = fst (predict_trend a s w) \<and>
   printed_sentiments (events_of (fst (main (Inr (retitle f a)) (Inr line) w))) =
     printed_sentiments (events_of (fst (main (Inr a) (Inr line) w))) \<and>
   (reddit a (sent w) (s @ '' stock'') 100 = (found, None) \<and> found \<noteq> [] \<and>
    series_apply (fromtimestamp w) (map created_utc found) = Inr ds \<and>
    series_apply (sia a) (map selftext found) = Inr xs \<longrightarrow>
      fst (avg_sentiment a s w) = Inr (series_mean w xs)) \<and>
   (series_apply (sia a) (map p_text ps) = Inr ys \<longrightarrow>
      sample_loop a ps out =
        (Inr (), out @ concat (map2 (\<lambda>p x. [Print (newline @ ''Title: '' @ p_title p),
                                               PrintSentiment x]) ps ys)))"
proof -
  have one: "fst (predict_trend (retitle f a) s w) = fst (predict_trend a s w)"
    by (simp add: predict_trend_retitle)
  have two: "printed_sentiments (events_of (fst (main (Inr (retitle f a)) (Inr line) w))) =
     printed_sentiments (events_of (fst (main (Inr a) (Inr line) w)))"
    using main_try_retitle [of f a "str_upper w line"
        "[Prompt ''Enter stock symbol (e.g., AAPL): '']" w]
    by (simp add: main_events printed_sentiments_append split: sum.split)
  have three: "reddit a (sent w) (s @ '' stock'') 100 = (found, None) \<and> found \<noteq> [] \<and>
    series_apply (fromtimestamp w) (map created_utc found) = Inr ds \<and>
    series_apply (sia a) (map selftext found) = Inr xs \<longrightarrow>
      fst (avg_sentiment a s w) = Inr (series_mean w xs)"
    by (auto simp add: avg_sentiment_result)
  have four: "series_apply (sia a) (map p_text ps) = Inr ys \<longrightarrow>
      sample_loop a ps out =
        (Inr (), out @ concat (map2 (\<lambda>p x. [Print (newline @ ''Title: '' @ p_title p),
                                               PrintSentiment x]) ps ys))"
    using sample_loop_all_scored by blast
  from one two three four show ?thesis by blast
qed

theorem title_never_scored_witness:
  "reddit demo_analyzer (sent world0) (''AAPL'' @ '' stock'') 100 = (demo_found, None) \<and>
   demo_found \<noteq> [] \<and>
   series_apply (fromtimestamp world0) (map created_utc demo_found) =
     Inr [Datetime 1970 1 1 0 0 0 0, Datetime 1970 1 1 0 1 0 0] \<and>
   series_apply (sia demo_analyzer) (map selftext demo_found) = Inr [- 0.4767, 0.6249] \<and>
   fst (avg_sentiment demo_analyzer ''AAPL'' world0) =
     Inr (series_mean world0 [- 0.4767, 0.6249]) \<and>
   series_apply (sia demo_analyzer)
     (map p_text (map2 post_of demo_found [Datetime 1970 1 1 0 0 0 0, Datetime 1970 1 1 0 1 0 0])) =
     Inr [- 0.4767, 0.6249] \<and>
   sample_loop demo_analyzer
     (map2 post_of demo_found [Datetime 1970 1 1 0 0 0 0, Datetime 1970 1 1 0 1 0 0]) [] =
     (Inr (), [Print (newline @ ''Title: great''), PrintSentiment (- 0.4767),
               Print (newline @ ''Title: update''), PrintSentiment 0.6249]) \<and>
   fst (predict_trend (retitle (\<lambda>s. ''terrible'') demo_analyzer) ''AAPL'' world0) =
     fst (predict_trend demo_analyzer ''AAPL'' world0)"
  using title_never_scored [of "\<lambda>s. ''terrible''" demo_analyzer "''AAPL''" world0 "''aapl''"
      demo_found "[Datetime 1970 1 1 0 0 0 0, Datetime 1970 1 1 0 1 0 0]" "[- 0.4767, 0.6249]"
      "map2 post_of demo_found [Datetime 1970 1 1 0 0 0 0, Datetime 1970 1 1 0 1 0 0]"
      "[- 0.4767, 0.6249]" "[]"]
  by (simp add: double_defs post_of_def)

section \<open>The label and the price history\<close>

text \<open>The price history is fetched after the mean is taken and never reaches it.\<close>

lemma avg_sentiment_yf: "fst (avg_sentiment a s (w\<lparr>yf := y\<rparr>)) = fst (avg_sentiment a s w)"
proof -
  obtain found stop where r: "reddit a (sent w) (s @ '' stock'') 100 = (found, stop)"
    by (cases "reddit a (sent w) (s @ '' stock'') 100")
  then have r': "reddit a (sent (w\<lparr>yf := y\<rparr>)) (s @ '' stock'') 100 = (found, stop)"
    by simp
  show ?thesis
    by (simp add: avg_sentiment_result [OF r] avg_sentiment_result [OF r']
        split: sum.split option.split)
qed

text \<open>
  C7. The label is a function of the mean sentiment alone: two calls of
  \<open>predict_trend\<close> that return, on any analyzers, symbols and worlds, return the same
  label whenever their means are equal; and the same call made with another price
  history returns the same label.
\<close>

theorem label_function_of_mean_only:
  "(fst (predict_trend a1 s1 w1) = Inr l1 \<and> fst (predict_trend a2 s2 w2) = Inr l2 \<and>
    fst (avg_sentiment a1 s1 w1) = fst (avg_sentiment a2 s2 w2) \<longrightarrow> l1 = l2) \<and>
   (fst (predict_trend a s w) = Inr l \<and> fst (predict_trend a s (w\<lparr>yf := y\<rparr>)) = Inr l' \<longrightarrow>
      l' = l)"
proof -
  have label: "fst (predict_trend b t v) = Inr k \<Longrightarrow> fst (avg_sentiment b t v) = Inr m \<Longrightarrow>
      k = trend_label m" for b t v k m
    by (auto simp add: predict_trend_result split: sum.splits)
  have mean: "fst (predict_trend b t v) = Inr k \<Longrightarrow> \<exists>m. fst (avg_sentiment b t v) = Inr m"
    for b t v k
    by (auto simp add: predict_trend_result split: sum.splits)
  have one: "fst (predict_trend a1 s1 w1) = Inr l1 \<and> fst (predict_trend a2 s2 w2) = Inr l2 \<and>
    fst (avg_sentiment a1 s1 w1) = fst (avg_sentiment a2 s2 w2) \<longrightarrow> l1 = l2"
  proof (intro impI, elim conjE)
    assume r1: "fst (predict_trend a1 s1 w1) = Inr l1"
      and r2: "fst (predict_trend a2 s2 w2) = Inr l2"
      and eq: "fst (avg_sentiment a1 s1 w1) = fst (avg_sentiment a2 s2 w2)"
    from mean [OF r1] obtain m where m: "fst (avg_sentiment a1 s1 w1) = Inr m" by blast
    with eq have m2: "fst (avg_sentiment a2 s2 w2) = Inr m" by simp
    from label [OF r1 m] label [OF r2 m2] show "l1 = l2" by simp
  qed
  have two: "fst (predict_trend a s w) = Inr l \<and> fst (predict_trend a s (w\<lparr>yf := y\<rparr>)) = Inr l' \<longrightarrow>
      l' = l"
  proof (intro impI, elim conjE)
    assume r1: "fst (predict_trend a s w) = Inr l"
      and r2: "fst (predict_trend a s (w\<lparr>yf := y\<rparr>)) = Inr l'"
    from mean [OF r1] obtain m where m: "fst (avg_sentiment a s w) = Inr m" by blast
    then have m2: "fst (avg_sentiment a s (w\<lparr>yf := y\<rparr>)) = Inr m" by (simp add: avg_sentiment_yf)
    from label [OF r1 m] label [OF r2 m2] show "l' = l" by simp
  qed
  from one two show ?thesis by blast
qed

theorem label_function_of_mean_only_witness:
  "fst (predict_trend demo_analyzer ''AAPL'' world0) = Inr ''Neutral (Detected - Mixed sentiment)'' \<and>
   fst (predict_trend shuffled_analyzer ''MSFT'' world1) = Inr ''Neutral (Detected - Mixed sentiment)'' \<and>
   fst (avg_sentiment demo_analyzer ''AAPL'' world0) = fst (avg_sentiment shuffled_analyzer ''MSFT'' world1) \<and>
   fst (predict_trend demo_analyzer ''AAPL'' (world0\<lparr>yf := yf world1\<rparr>)) =
     Inr ''Neutral (Detected - Mixed sentiment)'' \<and>
   yf world1 [] ''AAPL'' 30 \<noteq> yf world0 [] ''AAPL'' 30"
proof -
  let ?n = "''Neutral (Detected - Mixed sentiment)''"
  have p1: "fst (predict_trend demo_analyzer ''AAPL'' world0) = Inr ?n"
    by (simp add: run_defs double_defs)
  have p2: "fst (predict_trend shuffled_analyzer ''MSFT'' world1) = Inr ?n"
    by (simp add: run_defs double_defs)
  have p3: "fst (avg_sentiment demo_analyzer ''AAPL'' world0) =
      fst (avg_sentiment shuffled_analyzer ''MSFT'' world1)"
    by (simp add: run_defs double_defs)
  have p4: "fst (predict_trend demo_analyzer ''AAPL'' (world0\<lparr>yf := yf world1\<rparr>)) = Inr ?n"
    by (simp add: run_defs double_defs)
  have p5: "yf world1 [] ''AAPL'' 30 \<noteq> yf world0 [] ''AAPL'' 30"
    by (simp add: world0_def world1_def)
  note both = label_function_of_mean_only [of demo_analyzer "''AAPL''" world0 ?n
      shuffled_analyzer "''MSFT''" world1 ?n demo_analyzer "''AAPL''" world0 ?n "yf world1" ?n]
  from both p1 p2 p3 p4 p5 show ?thesis by blast
qed

section \<open>Failures of the collaborators in \<open>predict_trend\<close>\<close>

text \<open>
  C9. \<open>predict_trend\<close> returns a label only when both collaborators answered. An
  exception of the post fetch is the exception of the call, and the search was
  requested once and nothing after it; so it is for the exception of a search that
  raises. An exception of the price fetch is the exception of the call although the
  mean had been computed.
\<close>

theorem predict_trend_all_or_nothing:
  "(fst (get_reddit_posts a s 100 w) = Inl e \<longrightarrow>
      fst (predict_trend a s w) = Inl e \<and>
      sent (snd (predict_trend a s w)) = sent w @ [Search (s @ '' stock'') 100]) \<and>
   (reddit a (sent w) (s @ '' stock'') 100 = (found, Some e) \<and>
    series_apply (fromtimestamp w) (map created_utc found) = Inr ds \<longrightarrow>
      fst (predict_trend a s w) = Inl e \<and>
      sent (snd (predict_trend a s w)) = sent w @ [Search (s @ '' stock'') 100]) \<and>
   (fst (avg_sentiment a s w) = Inr m \<and>
    yf w (sent w @ [Search (s @ '' stock'') 100]) s 30 = Inl e' \<longrightarrow>
      fst (predict_trend a s w) = Inl e') \<and>
   (fst (predict_trend a s w) = Inr l \<longrightarrow>
      (\<exists>found d. reddit a (sent w) (s @ '' stock'') 100 = (found, None) \<and>
         yf w (sent w @ [Search (s @ '' stock'') 100]) s 30 = Inr d))"
proof -
  have one: "fst (get_reddit_posts a s 100 w) = Inl e \<longrightarrow>
      fst (predict_trend a s w) = Inl e \<and>
      sent (snd (predict_trend a s w)) = sent w @ [Search (s @ '' stock'') 100]"
    by (simp add: predict_trend_result predict_trend_world avg_sentiment_fetch)
  have two: "reddit a (sent w) (s @ '' stock'') 100 = (found, Some e) \<and>
      series_apply (fromtimestamp w) (map created_utc found) = Inr ds \<longrightarrow>
      fst (predict_trend a s w) = Inl e \<and>
      sent (snd (predict_trend a s w)) = sent w @ [Search (s @ '' stock'') 100]"
    by (auto simp add: predict_trend_result predict_trend_world avg_sentiment_result)
  have three: "fst (avg_sentiment a s w) = Inr m \<and>
      yf w (sent w @ [Search (s @ '' stock'') 100]) s 30 = Inl e' \<longrightarrow>
      fst (predict_trend a s w) = Inl e'"
    by (simp add: predict_trend_result)
  have four: "fst (predict_trend a s w) = Inr l \<longrightarrow>
      (\<exists>found d. reddit a (sent w) (s @ '' stock'') 100 = (found, None) \<and>
         yf w (sent w @ [Search (s @ '' stock'') 100]) s 30 = Inr d)"
  proof
    assume l: "fst (predict_trend a s w) = Inr l"
    obtain found stop where r: "reddit a (sent w) (s @ '' stock'') 100 = (found, stop)"
      by (cases "reddit a (sent w) (s @ '' stock'') 100")
    from l have "stop = None"
      by (auto simp add: predict_trend_result avg_sentiment_result [OF r]
          split: sum.splits option.splits)
    moreover from l have "\<exists>d. yf w (sent w @ [Search (s @ '' stock'') 100]) s 30 = Inr d"
      by (auto simp add: predict_trend_result split: sum.splits)
    ultimately show "\<exists>found d. reddit a (sent w) (s @ '' stock'') 100 = (found, None) \<and>
         yf w (sent w @ [Search (s @ '' stock'') 100]) s 30 = Inr d"
      using r by blast
  qed
  from one two three four show ?thesis by blast
qed

theorem predict_trend_all_or_nothing_witness:
  "reddit flaky_analyzer (sent world0) (''AAPL'' @ '' stock'') 100 =
     ([], Some (External ''RequestException'' ''timed out'')) \<and>
   series_apply (fromtimestamp world0) (map created_utc []) = Inr [] \<and>
   reddit flaky_analyzer [Search ''AAPL stock'' 100] ''AAPL stock'' 100 = (demo_found, None) \<and>
   fst (get_reddit_posts flaky_analyzer ''AAPL'' 100 world0) =
     Inl (External ''RequestException'' ''timed out'') \<and>
   fst (predict_trend flaky_analyzer ''AAPL'' world0) = Inl (External ''RequestException'' ''timed out'') \<and>
   sent (snd (predict_trend flaky_analyzer ''AAPL'' world0)) = [Search ''AAPL stock'' 100] \<and>
   fst (avg_sentiment demo_analyzer ''AAPL'' world_down) = Inr (Fin 0.0741) \<and>
   yf world_down (sent world_down @ [Search (''AAPL'' @ '' stock'') 100]) ''AAPL'' 30 =
     Inl (External ''YFException'' ''no data'') \<and>
   fst (predict_trend demo_analyzer ''AAPL'' world_down) = Inl (External ''YFException'' ''no data'') \<and>
   fst (predict_trend demo_analyzer ''AAPL'' world1) = Inr ''Neutral (Detected - Mixed sentiment)''"
proof -
  let ?t = "External ''RequestException'' ''timed out''"
  let ?y = "External ''YFException'' ''no data''"
  have a1: "reddit flaky_analyzer (sent world0) (''AAPL'' @ '' stock'') 100 = ([], Some ?t)"
    by (simp add: flaky_analyzer_def world0_def)
  have a2: "series_apply (fromtimestamp world0) (map created_utc []) = Inr []"
    by simp
  have a3: "reddit flaky_analyzer [Search ''AAPL stock'' 100] ''AAPL stock'' 100 = (demo_found, None)"
    by (simp add: flaky_analyzer_def)
  have a4: "fst (get_reddit_posts flaky_analyzer ''AAPL'' 100 world0) = Inl ?t"
    by (simp add: get_reddit_posts_def flaky_analyzer_def world0_def)
  note flaky = predict_trend_all_or_nothing [of flaky_analyzer "''AAPL''" world0 ?t "[]" "[]"]
  from flaky a4 have a5: "fst (predict_trend flaky_analyzer ''AAPL'' world0) = Inl ?t"
    by blast
  from flaky a4 have a6: "sent (snd (predict_trend flaky_analyzer ''AAPL'' world0)) =
      [Search ''AAPL stock'' 100]"
    by (simp add: world0_def)
  have b1: "fst (avg_sentiment demo_analyzer ''AAPL'' world_down) = Inr (Fin 0.0741)"
    by (simp add: run_defs double_defs)
  have b2: "yf world_down (sent world_down @ [Search (''AAPL'' @ '' stock'') 100]) ''AAPL'' 30 =
      Inl ?y"
    by (simp add: world_down_def)
  note down = predict_trend_all_or_nothing [of demo_analyzer "''AAPL''" world_down _ _ _
      "Fin 0.0741" ?y]
  from down b1 b2 have b3: "fst (predict_trend demo_analyzer ''AAPL'' world_down) = Inl ?y"
    by blast
  have c1: "fst (predict_trend demo_analyzer ''AAPL'' world1) =
      Inr ''Neutral (Detected - Mixed sentiment)''"
    by (simp add: run_defs double_defs)
  from a1 a2 a3 a4 a5 a6 b1 b2 b3 c1 show ?thesis by blast
qed

section \<open>The handler of \<open>main\<close>\<close>

lemma main_try_predict_raises:
  "fst (predict_trend a s w) = Inl e \<Longrightarrow> fst (main_try a s out w) = Inl e \<and>
     fst (snd (main_try a s out w)) = out"
  by (cases "predict_trend a s w") (simp add: main_try_def)

lemma main_outcome:
  "fst (main (Inr a) (Inr line) w) =
     (case fst (main_try a (str_upper w line) [Prompt ''Enter stock symbol (e.g., AAPL): ''] w) of
        Inl e \<Rightarrow>
          if is_Exception e
          then Exit0 (fst (snd (main_try a (str_upper w line)
                 [Prompt ''Enter stock symbol (e.g., AAPL): ''] w)) @ [Print (''Error: '' @ str_exc e)])
          else Uncaught e (fst (snd (main_try a (str_upper w line)
                 [Prompt ''Enter stock symbol (e.g., AAPL): ''] w)))
      | Inr u \<Rightarrow> Exit0 (fst (snd (main_try a (str_upper w line)
                 [Prompt ''Enter stock symbol (e.g., AAPL): ''] w))))"
  by (simp add: main_def Let_def split: prod.split sum.split)

text \<open>
  C8, as stated: every exception raised during a run of the report driver is caught
  and the program exits normally. It is not so. The handler is \<open>except Exception\<close>: a
  \<open>KeyboardInterrupt\<close> raised while the search runs passes it and ends the program. And
  the constructor and \<open>input\<close> stand before the \<open>try\<close> statement: an exception of the
  constructor (a missing credential) or of \<open>input\<close> (end of input) is not handled.
\<close>

theorem main_uncaught_counterexample:
  "fst (main (Inr interrupted_analyzer) (Inr ''aapl'') world0) =
     Uncaught (NonException ''KeyboardInterrupt'' [])
       [Prompt ''Enter stock symbol (e.g., AAPL): ''] \<and>
   fst (main (Inl (External ''MissingRequiredAttributeException''
                     ''Required configuration setting client_id missing''))
          (Inr ''aapl'') world0) =
     Uncaught (External ''MissingRequiredAttributeException''
                 ''Required configuration setting client_id missing'') [] \<and>
   fst (main (Inr demo_analyzer) (Inl (External ''EOFError'' ''EOF when reading a line'')) world0) =
     Uncaught (External ''EOFError'' ''EOF when reading a line'')
       [Prompt ''Enter stock symbol (e.g., AAPL): '']"
  by (simp add: run_defs double_defs ascii_upper_aapl)

text \<open>
  C8, amended. Every exception that is an instance of \<open>Exception\<close> and is raised in
  the \<open>try\<close> body of \<open>main\<close> (by the prediction, the second fetch or the scoring of
  the sample) is caught there: \<open>main\<close> prints \<open>Error:\<close> followed by its text after what
  was printed before it, and ends normally. So does a run whose \<open>try\<close> body raises
  nothing. A failure of the post fetch or of the price fetch of \<open>predict_trend\<close> leaves
  the prompt and the error line as the whole output. An exception that is not an
  instance of \<open>Exception\<close> passes the handler.
\<close>

theorem main_catches_exceptions_of_try:
  "(fst (main_try a (str_upper w line) [Prompt ''Enter stock symbol (e.g., AAPL): ''] w) = Inr u \<longrightarrow>
      fst (main (Inr a) (Inr line) w) =
        Exit0 (fst (snd (main_try a (str_upper w line)
                 [Prompt ''Enter stock symbol (e.g., AAPL): ''] w)))) \<and>
   (fst (main_try a (str_upper w line) [Prompt ''Enter stock symbol (e.g., AAPL): ''] w) = Inl e \<and>
    is_Exception e \<longrightarrow>
      fst (main (Inr a) (Inr line) w) =
        Exit0 (fst (snd (main_try a (str_upper w line)
                 [Prompt ''Enter stock symbol (e.g., AAPL): ''] w))
               @ [Print (''Error: '' @ str_exc e)])) \<and>
   (fst (main_try a (str_upper w line) [Prompt ''Enter stock symbol (e.g., AAPL): ''] w) = Inl e \<and>
    \<not> is_Exception e \<longrightarrow>
      fst (main (Inr a) (Inr line) w) =
        Uncaught e (fst (snd (main_try a (str_upper w line)
                      [Prompt ''Enter stock symbol (e.g., AAPL): ''] w)))) \<and>
   (fst (get_reddit_posts a (str_upper w line) 100 w) = Inl e \<and> is_Exception e \<longrightarrow>
      fst (main (Inr a) (Inr line) w) =
        Exit0 [Prompt ''Enter stock symbol (e.g., AAPL): '', Print (''Error: '' @ str_exc e)]) \<and>
   (fst (avg_sentiment a (str_upper w line) w) = Inr m \<and>
    yf w (sent w @ [Search (str_upper w line @ '' stock'') 100]) (str_upper w line) 30 = Inl e \<and>
    is_Exception e \<longrightarrow>
      fst (main (Inr a) (Inr line) w) =
        Exit0 [Prompt ''Enter stock symbol (e.g., AAPL): '', Print (''Error: '' @ str_exc e)])"
proof -
  let ?p = "[Prompt ''Enter stock symbol (e.g., AAPL): '']"
  let ?s = "str_upper w line"
  have one: "fst (main_try a ?s ?p w) = Inr u \<longrightarrow>
      fst (main (Inr a) (Inr line) w) = Exit0 (fst (snd (main_try a ?s ?p w)))"
    by (simp add: main_outcome)
  have two: "fst (main_try a ?s ?p w) = Inl e \<and> is_Exception e \<longrightarrow>
      fst (main (Inr a) (Inr line) w) =
        Exit0 (fst (snd (main_try a ?s ?p w)) @ [Print (''Error: '' @ str_exc e)])"
    by (simp add: main_outcome)
  have three: "fst (main_try a ?s ?p w) = Inl e \<and> \<not> is_Exception e \<longrightarrow>
      fst (main (Inr a) (Inr line) w) = Uncaught e (fst (snd (main_try a ?s ?p w)))"
    by (simp add: main_outcome)
  have raised: "fst (main (Inr a) (Inr line) w) = Exit0 (?p @ [Print (''Error: '' @ str_exc e)])"
    if "fst (predict_trend a ?s w) = Inl e" and "is_Exception e"
    using main_try_predict_raises [OF that(1), of ?p] that(2) by (simp add: main_outcome)
  have four: "fst (get_reddit_posts a ?s 100 w) = Inl e \<and> is_Exception e \<longrightarrow>
      fst (main (Inr a) (Inr line) w) =
        Exit0 [Prompt ''Enter stock symbol (e.g., AAPL): '', Print (''Error: '' @ str_exc e)]"
  proof (intro impI, elim conjE)
    assume "fst (get_reddit_posts a ?s 100 w) = Inl e" and ex: "is_Exception e"
    then have "fst (predict_trend a ?s w) = Inl e"
      by (simp add: predict_trend_result avg_sentiment_fetch)
    from raised [OF this ex] show "fst (main (Inr a) (Inr line) w) =
        Exit0 [Prompt ''Enter stock symbol (e.g., AAPL): '', Print (''Error: '' @ str_exc e)]"
      by simp
  qed
  have five: "fst (avg_sentiment a ?s w) = Inr m \<and>
      yf w (sent w @ [Search (?s @ '' stock'') 100]) ?s 30 = Inl e \<and> is_Exception e \<longrightarrow>
      fst (main (Inr a) (Inr line) w) =
        Exit0 [Prompt ''Enter stock symbol (e.g., AAPL): '', Print (''Error: '' @ str_exc e)]"
  proof (intro impI, elim conjE)
    assume "fst (avg_sentiment a ?s w) = Inr m"
      and "yf w (sent w @ [Search (?s @ '' stock'') 100]) ?s 30 = Inl e"
      and ex: "is_Exception e"
    then have "fst (predict_trend a ?s w) = Inl e"
      by (simp add: predict_trend_result)
    from raised [OF this ex] show "fst (main (Inr a) (Inr line) w) =
        Exit0 [Prompt ''Enter stock symbol (e.g., AAPL): '', Print (''Error: '' @ str_exc e)]"
      by simp
  qed
  from one two three four five show ?thesis by blast
qed

theorem main_catches_exceptions_of_try_witness:
  "fst (get_reddit_posts down_analyzer (str_upper world0 ''aapl'') 100 world0) =
     Inl (External ''RequestException'' ''connection refused'') \<and>
   is_Exception (External ''RequestException'' ''connection refused'') \<and>
   fst (main_try down_analyzer (str_upper world0 ''aapl'')
          [Prompt ''Enter stock symbol (e.g., AAPL): ''] world0) =
     Inl (External ''RequestException'' ''connection refused'') \<and>
   fst (main (Inr down_analyzer) (Inr ''aapl'') world0) =
     Exit0 [Prompt ''Enter stock symbol (e.g., AAPL): '', Print ''Error: connection refused''] \<and>
   fst (avg_sentiment demo_analyzer (str_upper world_down ''aapl'') world_down) = Inr (Fin 0.0741) \<and>
   yf world_down (sent world_down @ [Search (str_upper world_down ''aapl'' @ '' stock'') 100])
      (str_upper world_down ''aapl'') 30 = Inl (External ''YFException'' ''no data'') \<and>
   is_Exception (External ''YFException'' ''no data'') \<and>
   fst (main (Inr demo_analyzer) (Inr ''aapl'') world_down) =
     Exit0 [Prompt ''Enter stock symbol (e.g., AAPL): '', Print ''Error: no data''] \<and>
   fst (main_try interrupted_analyzer (str_upper world0 ''aapl'')
          [Prompt ''Enter stock symbol (e.g., AAPL): ''] world0) =
     Inl (NonException ''KeyboardInterrupt'' []) \<and>
   \<not> is_Exception (NonException ''KeyboardInterrupt'' []) \<and>
   fst (main_try demo_analyzer (str_upper world0 ''aapl'')
          [Prompt ''Enter stock symbol (e.g., AAPL): ''] world0) = Inr () \<and>
   (\<exists>out. fst (main (Inr demo_analyzer) (Inr ''aapl'') world0) = Exit0 out)"
proof -
  let ?p = "[Prompt ''Enter stock symbol (e.g., AAPL): '']"
  let ?c = "External ''RequestException'' ''connection refused''"
  let ?y = "External ''YFException'' ''no data''"
  let ?k = "NonException ''KeyboardInterrupt'' []"
  have up0: "str_upper world0 ''aapl'' = ''AAPL''"
    by (simp add: world0_def ascii_upper_aapl)
  have upd: "str_upper world_down ''aapl'' = ''AAPL''"
    by (simp add: world_down_def ascii_upper_aapl)
  have a1: "fst (get_reddit_posts down_analyzer (str_upper world0 ''aapl'') 100 world0) = Inl ?c"
    by (simp add: up0 get_reddit_posts_def down_analyzer_def)
  have a2: "is_Exception ?c" by simp
  have a3: "fst (main_try down_analyzer (str_upper world0 ''aapl'') ?p world0) = Inl ?c"
    by (simp add: up0 run_defs double_defs)
  note down = main_catches_exceptions_of_try [of down_analyzer world0 "''aapl''" _ ?c]
  from down a1 a2 have a4: "fst (main (Inr down_analyzer) (Inr ''aapl'') world0) =
      Exit0 [Prompt ''Enter stock symbol (e.g., AAPL): '', Print (''Error: '' @ str_exc ?c)]"
    by blast
  have b1: "fst (avg_sentiment demo_analyzer (str_upper world_down ''aapl'') world_down) =
      Inr (Fin 0.0741)"
    by (simp add: upd run_defs double_defs)
  have b2: "yf world_down (sent world_down @ [Search (str_upper world_down ''aapl'' @ '' stock'') 100])
      (str_upper world_down ''aapl'') 30 = Inl ?y"
    by (simp add: world_down_def)
  have b3: "is_Exception ?y" by simp
  note price = main_catches_exceptions_of_try [of demo_analyzer world_down "''aapl''" _ ?y
      "Fin 0.0741"]
  from price b1 b2 b3 have b4: "fst (main (Inr demo_analyzer) (Inr ''aapl'') world_down) =
      Exit0 [Prompt ''Enter stock symbol (e.g., AAPL): '', Print (''Error: '' @ str_exc ?y)]"
    by blast
  have c1: "fst (main_try interrupted_analyzer (str_upper world0 ''aapl'') ?p world0) = Inl ?k"
    by (simp add: up0 run_defs double_defs)
  have c2: "\<not> is_Exception ?k" by simp
  have d1: "fst (main_try demo_analyzer (str_upper world0 ''aapl'') ?p world0) = Inr ()"
    by (simp add: up0 run_defs double_defs)
  note demo = main_catches_exceptions_of_try [of demo_analyzer world0 "''aapl''" "()"]
  from demo d1 have d2: "\<exists>out. fst (main (Inr demo_analyzer) (Inr ''aapl'') world0) = Exit0 out"
    by blast
  from a1 a2 a3 a4 b1 b2 b3 b4 c1 c2 d1 d2 show ?thesis by simp
qed

end
